theory Spec2Isabelle
  imports Main "HOL-Library.Sublist"
begin

section \<open>The abstract class \<open>Message\<close> of \<open>src/puppet/message.ts\<close>\<close>

text \<open>
  \<open>Message\<close> is an abstract class. Its concrete members are the static helpers
  \<open>find\<close>, \<open>findAll\<close> and \<open>create\<close>, the constructor, \<open>toString()\<close> and the
  deprecated \<open>content()\<close>; every other member is declared \<open>abstract\<close> and its body
  lives in a subclass.

  A JavaScript exception is a value \<open>Inl e\<close> of a sum type; \<open>throw new Error(msg)\<close> is
  \<open>Inl (Error msg)\<close>.
\<close>

datatype js_error = Error string

subsection \<open>Constructor arguments and objects\<close>

text \<open>
  The constructor parameter is \<open>fileOrPayload?: string | Object\<close>. An object literal such
  as \<open>{ MsgId: 'id1' }\<close> is an association list of its keys and string values, in the
  order written.
\<close>

datatype js_arg = Str string | Obj "(string \<times> string) list"

text \<open>
  The base constructor stores its (optional) first argument in the read-only field
  \<open>fileOrPayload\<close>; its only other action is a \<open>log.silly\<close> line, which is not modelled.
\<close>

record message_base =
  fileOrPayload :: "js_arg option"

definition Message_constructor :: "js_arg list \<Rightarrow> message_base" where
  "Message_constructor args =
     \<lparr>fileOrPayload = (case args of [] \<Rightarrow> None | a # _ \<Rightarrow> Some a)\<rparr>"

text \<open>
  The static helpers are generic in \<open>this: T extends typeof Message\<close> and build their
  results with \<open>new (this as any)(...)\<close>: the class that is constructed is the receiver of
  the call. Its constructor is therefore a parameter \<open>ctor\<close> of the model, from the
  argument list to the object built (type \<open>'m\<close>).

  \<open>new\<close> creates an object with a fresh identity. The store is the list of all objects
  created so far and a reference is an index into it, so that \<open>new\<close> appends one object
  and returns the index it received, which no earlier object has.
\<close>

type_synonym ref = nat

type_synonym 'm store = "'m list"

definition new :: "(js_arg list \<Rightarrow> 'm) \<Rightarrow> js_arg list \<Rightarrow> 'm store \<Rightarrow> ref \<times> 'm store" where
  "new ctor args h = (length h, h @ [ctor args])"

text \<open>Reading a reference; \<open>None\<close> for a reference that names no object of the store.\<close>

definition deref :: "'m store \<Rightarrow> ref \<Rightarrow> 'm option" where
  "deref h r = (if r < length h then Some (h ! r) else None)"

subsection \<open>The static helpers \<open>findAll\<close>, \<open>find\<close> and \<open>create\<close>\<close>

text \<open>
  \<^verbatim>\<open>
  public static async findAll(this: T, query: any): Promise<T['prototype'][]> {
    return [
      new (this as any)({ MsgId: 'id1' }),
      new (this as any)({ MsdId: 'id2' }),
    ]
  }
  \<close>
  The promise always resolves; the model returns the resolved array and the new store.
\<close>

definition findAll :: "(js_arg list \<Rightarrow> 'm) \<Rightarrow> 'q \<Rightarrow> 'm store \<Rightarrow> ref list \<times> 'm store" where
  "findAll ctor query h =
     (let (r1, h1) = new ctor [Obj [(''MsgId'', ''id1'')]] h;
          (r2, h2) = new ctor [Obj [(''MsdId'', ''id2'')]] h1
      in ([r1, r2], h2))"

text \<open>
  JavaScript's \<open>xs[0]\<close> is \<open>undefined\<close> on an empty array and the first element
  otherwise; \<open>None\<close> stands for the absent value (\<open>undefined\<close>, which the declared type
  \<open>T['prototype'] | null\<close> covers as the nullable case).
\<close>

definition index0 :: "'a list \<Rightarrow> 'a option" where
  "index0 xs = (case xs of [] \<Rightarrow> None | x # _ \<Rightarrow> Some x)"

text \<open>
  \<^verbatim>\<open>
  public static async find(this: T, query: any): Promise<T['prototype'] | null> {
    return (await this.findAll(query))[0]
  }
  \<close>
\<close>

definition find_message :: "(js_arg list \<Rightarrow> 'm) \<Rightarrow> 'q \<Rightarrow> 'm store \<Rightarrow> ref option \<times> 'm store" where
  "find_message ctor query h =
     (let (rs, h') = findAll ctor query h in (index0 rs, h'))"

text \<open>\<open>create(...args)\<close> is \<open>new (this as any)(...args)\<close>.\<close>

definition create :: "(js_arg list \<Rightarrow> 'm) \<Rightarrow> js_arg list \<Rightarrow> 'm store \<Rightarrow> ref \<times> 'm store" where
  "create ctor args h = new ctor args h"

subsection \<open>The abstract accessors\<close>

text \<open>
  \<open>type(): WebMsgType\<close>, \<open>text(): string\<close> and \<open>filename(): string | null\<close> are abstract:
  a subclass supplies them. The model takes the subclass's implementations as a record of
  functions on the object type \<open>'m\<close>. \<open>WebMsgType\<close> is imported from
  \<open>../puppet-puppeteer/schema\<close>, whose declaration is missing, so the enum
  is a type parameter \<open>'t\<close>; the two things \<open>toString()\<close> uses of it are parameters too:
  the member \<open>WebMsgType.TEXT\<close>, and the lookup \<open>WebMsgType[v]\<close> of a member's name, which
  is \<open>undefined\<close> (\<open>None\<close>) for a value that has no name.
\<close>

record ('m, 't) accessors =
  type_of :: "'m \<Rightarrow> 't"
  text_of :: "'m \<Rightarrow> string"
  filename_of :: "'m \<Rightarrow> string option"

record 't WebMsgType =
  TEXT :: "'t"
  name_of :: "'t \<Rightarrow> string option"

text \<open>
  A template literal converts each \<open>${...}\<close> to a string: a string stays as it is,
  \<open>null\<close> becomes \<open>"null"\<close> and \<open>undefined\<close> becomes \<open>"undefined"\<close>.
\<close>

definition template_nullable :: "string option \<Rightarrow> string" where
  "template_nullable v = (case v of None \<Rightarrow> ''null'' | Some s \<Rightarrow> s)"

definition template_optional :: "string option \<Rightarrow> string" where
  "template_optional v = (case v of None \<Rightarrow> ''undefined'' | Some s \<Rightarrow> s)"

subsection \<open>\<open>toString()\<close>\<close>

text \<open>
  \<^verbatim>\<open>
  public toString() {
    if (this.type() === Message.Type.TEXT) {
      return `Message#${WebMsgType[this.type()]}<${this.text()}>`
    } else {
      return `Message#${WebMsgType[this.type()]}<${this.filename()}>`
    }
  }
  \<close>
\<close>

definition toString :: "'t WebMsgType \<Rightarrow> ('m, 't) accessors \<Rightarrow> 'm \<Rightarrow> string" where
  "toString W A this =
     (if type_of A this = TEXT W
      then ''Message#'' @ template_optional (name_of W (type_of A this))
             @ ''<'' @ text_of A this @ ''>''
      else ''Message#'' @ template_optional (name_of W (type_of A this))
             @ ''<'' @ template_nullable (filename_of A this) @ ''>'')"

subsection \<open>\<open>content()\<close>\<close>

text \<open>
  \<^verbatim>\<open>
  public content(text?: string): void | string {
    throw new Error('Deprecated. Use `text()` instead of `content()`. See https://github.com/Chatie/wechaty/issues/1163')
  }
  \<close>
  The result type is \<open>void | string\<close>: \<open>None\<close> is \<open>void\<close>. The body does not look at the
  receiver, at the argument or at any accessor.
\<close>

definition content :: "'m \<Rightarrow> string option \<Rightarrow> js_error + string option" where
  "content this text =
     Inl (Error ''Deprecated. Use `text()` instead of `content()`. See https://github.com/Chatie/wechaty/issues/1163'')"

section \<open>The concrete variants: hydration, mention resolution and dispatch\<close>

text \<open>
  \<open>message.ts\<close> declares \<open>ready()\<close>, \<open>mentioned()\<close>, \<open>say()\<close>, \<open>forward()\<close> and the
  accessors \<open>from()\<close>, \<open>to()\<close>, \<open>room()\<close>, \<open>filename()\<close>, \<open>mimeType()\<close> as abstract
  members; their bodies are in the subclasses of \<open>Message\<close>, which \<open>message.ts\<close> does
  not contain. The definitions of this section follow the design document instead (its
  sections 3, 4 and 6), sentence by sentence, and each one says so.
\<close>

subsection \<open>Directory Services and Transport Session\<close>

text \<open>
  Modelled from the spec: the Contact and Room records that Directory Services own
  (\<open>./contact\<close> and \<open>./room\<close> are imported by \<open>message.ts\<close> but missing), named by an
  identifier, and the message kinds of section 3.
\<close>

type_synonym ident = string

datatype contact = Contact (contact_id: ident) (display_name: string)

datatype room = Room (room_id: ident)

datatype kind = TextKind | MediaKind | AppKind | LocationKind | RecalledKind

text \<open>
  Modelled from the spec: the failures of its section 7 (the subclasses that raise them
  are missing).
\<close>

datatype failure =
  NotHydrated | HydrationError | DanglingReferenceError | UnsupportedOperation | SendFailure

text \<open>
  Modelled from the spec: the raw mention information of a payload (section 4.3; the
  payload type of the missing subclasses). The backend supplies either explicit contact
  identifiers or only the display-name markers embedded in the text.
\<close>

datatype raw_mentions = ExplicitIds "ident list" | Markers "string list"

text \<open>
  Modelled from the spec: the raw payload that \<open>TransportSession.fetchPayload\<close> returns
  (sections 3, 4.2 and 6; the payload type of the missing subclasses). It names the
  sender, and optionally a recipient and a room, by identifier.
\<close>

record rawPayload =
  p_id :: ident
  p_kind :: kind
  p_from :: ident
  p_to :: "ident option"
  p_room :: "ident option"
  p_text :: string
  p_mentions :: raw_mentions
  p_filename :: "string option"
  p_ext :: string
  p_mimeType :: "string option"

text \<open>
  Modelled from the spec: Directory Services (section 6; an external collaborator).
  \<open>findContact\<close> and \<open>findRoom\<close> answer \<open>NotFound\<close> as \<open>None\<close>. \<open>byDisplayName\<close> is
  the best-effort lookup of one display-name marker within a room's membership; which
  candidates it returns when a name is shared is left open by the design document, so
  it is a parameter.
\<close>

record directory =
  findContact :: "ident \<Rightarrow> contact option"
  findRoom :: "ident \<Rightarrow> room option"
  byDisplayName :: "ident option \<Rightarrow> string \<Rightarrow> contact list"

text \<open>
  Modelled from the spec: the arguments of \<open>TransportSession.send(target, content,
  mentions?)\<close> (section 6): the target is a Contact or a Room, the content is text or a
  raw payload, and absent mentions are the empty list.
\<close>

datatype target = ToContact contact | ToRoom room

datatype body = Text string | Raw rawPayload

record request =
  target :: target
  body :: body
  mention :: "contact list"

text \<open>
  Modelled from the spec: the Transport Session (section 6; an external collaborator).
  \<open>fetchPayload\<close> answers \<open>Unreachable\<close> as \<open>None\<close>; \<open>acknowledges\<close> tells whether
  \<open>send\<close> answers \<open>Ack\<close> (otherwise \<open>SendFailure\<close>).
\<close>

record transport =
  fetchPayload :: "ident \<Rightarrow> rawPayload option"
  acknowledges :: "request \<Rightarrow> bool"

text \<open>
  Modelled from the spec: the effects of the core on its collaborators, kept as a log
  that every operation takes and returns: the number of payload fetches made, the
  requests handed to \<open>send\<close> in order, and the warnings recorded for mention
  identifiers that did not resolve (section 4.3).
\<close>

record session =
  fetches :: nat
  sends :: "request list"
  warnings :: "ident list"

subsection \<open>The Message Entity\<close>

text \<open>
  Modelled from the spec: the Message Entity of section 3 (the fields of the missing
  subclasses). The fields that hydration populates are held by the \<open>READY\<close> state, so
  that reading one of them earlier is the \<open>NotHydrated\<close> failure and the sender of a
  hydrated entity is never null. The fields \<open>subKind\<close>, \<open>appKind\<close> and \<open>self\<close>, which no
  operation below reads, are left out.
\<close>

record hydrated =
  kind :: kind
  sender :: contact
  recipient :: "contact option"
  room :: "room option"
  msg_text :: string
  filename :: "string option"
  extension :: string
  mimeType :: "string option"
  mentions :: "contact list"
  raw :: rawPayload

datatype hydrationState = RAW | HYDRATING | READY hydrated

record entity =
  msg_id :: ident
  hydrationState :: hydrationState

text \<open>
  Modelled from the spec: \<open>Message.create(rawPayloadOrId)\<close> gives a \<open>RAW\<close> entity
  (section 6); the identifier is assigned at construction.
\<close>

definition create_entity :: "ident + rawPayload \<Rightarrow> entity" where
  "create_entity rawPayloadOrId =
     \<lparr>msg_id = (case rawPayloadOrId of Inl i \<Rightarrow> i | Inr p \<Rightarrow> p_id p), hydrationState = RAW\<rparr>"

text \<open>
  Modelled from the spec: the zero-argument accessors (section 4.1; bodies in the missing
  subclasses). Each is a pure getter that fails with \<open>NotHydrated\<close> before \<open>ready()\<close>
  has completed; the identifier is always available.
\<close>

definition getter :: "(hydrated \<Rightarrow> 'a) \<Rightarrow> entity \<Rightarrow> failure + 'a" where
  "getter field m = (case hydrationState m of READY d \<Rightarrow> Inr (field d) | _ \<Rightarrow> Inl NotHydrated)"

definition get_from :: "entity \<Rightarrow> failure + contact" where
  "get_from = getter sender"

definition get_to :: "entity \<Rightarrow> failure + contact option" where
  "get_to = getter recipient"

definition get_room :: "entity \<Rightarrow> failure + room option" where
  "get_room = getter room"

definition get_filename :: "entity \<Rightarrow> failure + string option" where
  "get_filename = getter filename"

definition get_mimeType :: "entity \<Rightarrow> failure + string option" where
  "get_mimeType = getter mimeType"

definition mentioned :: "entity \<Rightarrow> failure + contact list" where
  "mentioned = getter mentions"

subsection \<open>Mention Resolver\<close>

text \<open>
  Modelled from the spec: the explicit-identifier path of the Mention Resolver (section
  4.3; the body of \<open>mentioned()\<close> is in the missing subclasses). Each identifier is
  resolved through Directory Services in the listed order; one that does not resolve is
  dropped with a recorded warning, not a failure. The result is the contacts and the
  identifiers warned about.
\<close>

fun resolveIds :: "directory \<Rightarrow> ident list \<Rightarrow> contact list \<times> ident list" where
  "resolveIds ds [] = ([], [])"
| "resolveIds ds (i # ids) =
     (let (cs, ws) = resolveIds ds ids
      in case findContact ds i of
           Some c \<Rightarrow> (c # cs, ws)
         | None \<Rightarrow> (cs, i # ws))"

text \<open>
  Modelled from the spec: the Mention Resolver (section 4.3). With explicit identifiers
  it resolves them; with markers only it asks the directory for each display name
  within the originating room.
\<close>

definition mentionResolver :: "directory \<Rightarrow> rawPayload \<Rightarrow> contact list \<times> ident list" where
  "mentionResolver ds p =
     (case p_mentions p of
        ExplicitIds ids \<Rightarrow> resolveIds ds ids
      | Markers names \<Rightarrow> (concat (map (byDisplayName ds (p_room p)) names), []))"

subsection \<open>Hydration Protocol\<close>

text \<open>
  Modelled from the spec: the resolution step of hydration (section 4.2; the body of
  \<open>ready()\<close> is in the missing subclasses). The sender, the recipient and the room are
  resolved through Directory Services: a sender that does not resolve is fatal
  (\<open>DanglingReferenceError\<close>); a recipient or room that does not resolve downgrades that
  field to null. The Mention Resolver is run, and the attachment metadata is populated
  for a MEDIA payload only.
\<close>

definition hydrate :: "directory \<Rightarrow> rawPayload \<Rightarrow> failure + hydrated \<times> ident list" where
  "hydrate ds p =
     (case findContact ds (p_from p) of
        None \<Rightarrow> Inl DanglingReferenceError
      | Some s \<Rightarrow>
          (let (ms, ws) = mentionResolver ds p
           in Inr (\<lparr>kind = p_kind p,
                    sender = s,
                    recipient = Option.bind (p_to p) (findContact ds),
                    room = Option.bind (p_room p) (findRoom ds),
                    msg_text = p_text p,
                    filename = (if p_kind p = MediaKind then p_filename p else None),
                    extension = (if p_kind p = MediaKind then p_ext p else []),
                    mimeType = (if p_kind p = MediaKind then p_mimeType p else None),
                    mentions = ms,
                    raw = p\<rparr>, ws)))"

text \<open>
  Modelled from the spec: \<open>ready()\<close> (section 4.2; abstract in \<open>message.ts\<close>). If the
  entity is \<open>READY\<close> it is returned immediately. Otherwise it is marked \<open>HYDRATING\<close>, the
  full payload is fetched from the Transport Session by \<open>id\<close> (one fetch), the
  references are resolved, and the entity is marked \<open>READY\<close>. The fetch failing, or
  answering a payload of another id, is \<open>HydrationError\<close>. The design document does not
  say in which state a failed hydration leaves the entity: a failure returns no entity.

  A \<open>HYDRATING\<close> entity is one whose hydration another caller has in flight, and a call
  on it waits for that hydration. A call of this function runs to its end before the
  next one starts, so no hydration is in flight when it starts: on a \<open>HYDRATING\<close>
  entity it has nothing to wait for and yields no result, which is \<open>None\<close>.
\<close>

definition ready ::
  "transport \<Rightarrow> directory \<Rightarrow> entity \<Rightarrow> session \<Rightarrow> ((failure + entity) \<times> session) option" where
  "ready ts ds m s =
     (case hydrationState m of
        READY d \<Rightarrow> Some (Inr m, s)
      | HYDRATING \<Rightarrow> None
      | RAW \<Rightarrow>
          (let m1 = m\<lparr>hydrationState := HYDRATING\<rparr>;
               s1 = s\<lparr>fetches := Suc (fetches s)\<rparr>
           in case fetchPayload ts (msg_id m1) of
                None \<Rightarrow> Some (Inl HydrationError, s1)
              | Some p \<Rightarrow>
                  if p_id p \<noteq> msg_id m1 then Some (Inl HydrationError, s1)
                  else (case hydrate ds p of
                          Inl e \<Rightarrow> Some (Inl e, s1)
                        | Inr (d, ws) \<Rightarrow>
                            Some (Inr (m1\<lparr>hydrationState := READY d\<rparr>),
                                  s1\<lparr>warnings := warnings s1 @ ws\<rparr>))))"

subsection \<open>Reply/Forward Dispatcher\<close>

text \<open>
  Modelled from the spec: \<open>TransportSession.send\<close> (section 6): the request is handed
  to the session, which answers \<open>Ack\<close> or \<open>SendFailure\<close>.
\<close>

definition send :: "transport \<Rightarrow> request \<Rightarrow> session \<Rightarrow> (failure + unit) \<times> session" where
  "send ts rq s =
     (if acknowledges ts rq then Inr () else Inl SendFailure, s\<lparr>sends := sends s @ [rq]\<rparr>)"

text \<open>
  Modelled from the spec: the payload of \<open>say\<close> (section 4.4) is literal text or another
  fully hydrated Message Entity, whose already resolved content is what is sent, with no
  new hydration.
\<close>

datatype sayable = SayText string | SayMessage entity

definition sayable_body :: "sayable \<Rightarrow> failure + body" where
  "sayable_body textOrMessage =
     (case textOrMessage of
        SayText t \<Rightarrow> Inr (Text t)
      | SayMessage e \<Rightarrow> (case getter raw e of Inl f \<Rightarrow> Inl f | Inr p \<Rightarrow> Inr (Raw p)))"

text \<open>
  Modelled from the spec: \<open>say(textOrMessage, mentions?)\<close> (section 4.4; abstract in
  \<open>message.ts\<close>). If the source message's room is set, the reply targets that room and
  carries \<open>mentions\<close>; otherwise it targets \<open>from()\<close> as a direct message and \<open>mentions\<close>
  is ignored. An absent \<open>mentions\<close> argument is the empty list.
\<close>

definition say ::
  "transport \<Rightarrow> entity \<Rightarrow> sayable \<Rightarrow> contact list \<Rightarrow> session \<Rightarrow> (failure + unit) \<times> session" where
  "say ts m textOrMessage mentions_arg s =
     (case get_room m of
        Inl f \<Rightarrow> (Inl f, s)
      | Inr (Some r) \<Rightarrow>
          (case sayable_body textOrMessage of
             Inl f \<Rightarrow> (Inl f, s)
           | Inr b \<Rightarrow> send ts \<lparr>target = ToRoom r, body = b, mention = mentions_arg\<rparr> s)
      | Inr None \<Rightarrow>
          (case get_from m of
             Inl f \<Rightarrow> (Inl f, s)
           | Inr c \<Rightarrow>
               (case sayable_body textOrMessage of
                  Inl f \<Rightarrow> (Inl f, s)
                | Inr b \<Rightarrow> send ts \<lparr>target = ToContact c, body = b, mention = []\<rparr> s)))"

text \<open>
  Modelled from the spec: \<open>forward(target)\<close> (section 4.4; abstract in \<open>message.ts\<close>).
  It fails with \<open>NotHydrated\<close> before \<open>ready()\<close> has completed; otherwise it re-sends the
  message's content to \<open>target\<close> unchanged. The entity after the call is part of the
  result.
\<close>

definition forward ::
  "transport \<Rightarrow> entity \<Rightarrow> target \<Rightarrow> session \<Rightarrow> (failure + unit) \<times> entity \<times> session" where
  "forward ts m to s =
     (case getter raw m of
        Inl f \<Rightarrow> (Inl f, m, s)
      | Inr p \<Rightarrow>
          (let (r, s') = send ts \<lparr>target = to, body = Raw p, mention = []\<rparr> s
           in (r, m, s')))"

section \<open>Example data\<close>

text \<open>
  A subclass for the examples of \<open>toString()\<close>: an object carries its type, its text and
  its file name, and the enum has the members \<open>TEXT = 1\<close> and \<open>IMAGE = 3\<close>.
\<close>

datatype example_message = ExampleMessage int string "string option"

definition example_accessors :: "(example_message, int) accessors" where
  "example_accessors =
     \<lparr>type_of = (\<lambda>m. case m of ExampleMessage t _ _ \<Rightarrow> t),
      text_of = (\<lambda>m. case m of ExampleMessage _ x _ \<Rightarrow> x),
      filename_of = (\<lambda>m. case m of ExampleMessage _ _ f \<Rightarrow> f)\<rparr>"

definition example_WebMsgType :: "int WebMsgType" where
  "example_WebMsgType =
     \<lparr>TEXT = 1,
      name_of = (\<lambda>t. if t = 1 then Some ''TEXT'' else if t = 3 then Some ''IMAGE'' else None)\<rparr>"

text \<open>
  A directory that knows Alice, Bob and one room, and a session that serves two
  payloads: \<open>m1\<close>, a direct text message from Alice to Carol, whom the directory does
  not know; and \<open>m2\<close>, a media message from Alice in the room that mentions Bob twice
  and then Alice.
\<close>

definition alice :: contact where
  "alice = Contact ''alice'' ''Alice''"

definition bob :: contact where
  "bob = Contact ''bob'' ''Bob''"

definition example_directory :: directory where
  "example_directory =
     \<lparr>findContact = map_of [(''alice'', alice), (''bob'', bob)],
      findRoom = map_of [(''room1'', Room ''room1'')],
      byDisplayName = (\<lambda>r n. [])\<rparr>"

definition example_payload_direct :: rawPayload where
  "example_payload_direct =
     \<lparr>p_id = ''m1'', p_kind = TextKind, p_from = ''alice'', p_to = Some ''carol'',
      p_room = None, p_text = ''ping'', p_mentions = ExplicitIds [],
      p_filename = None, p_ext = [], p_mimeType = None\<rparr>"

definition example_payload_room :: rawPayload where
  "example_payload_room =
     \<lparr>p_id = ''m2'', p_kind = MediaKind, p_from = ''alice'', p_to = None,
      p_room = Some ''room1'', p_text = [], p_mentions = ExplicitIds [''bob'', ''bob'', ''alice''],
      p_filename = Some ''photo.jpg'', p_ext = ''jpg'', p_mimeType = Some ''image/jpeg''\<rparr>"

definition example_transport :: transport where
  "example_transport =
     \<lparr>fetchPayload = map_of [(''m1'', example_payload_direct), (''m2'', example_payload_room)],
      acknowledges = (\<lambda>rq. True)\<rparr>"

definition example_session :: session where
  "example_session = \<lparr>fetches = 0, sends = [], warnings = []\<rparr>"

text \<open>The two messages as hydration leaves them.\<close>

definition example_direct_hydrated :: hydrated where
  "example_direct_hydrated =
     \<lparr>kind = TextKind, sender = alice, recipient = None, room = None, msg_text = ''ping'',
      filename = None, extension = [], mimeType = None, mentions = [],
      raw = example_payload_direct\<rparr>"

definition example_direct_message :: entity where
  "example_direct_message = \<lparr>msg_id = ''m1'', hydrationState = READY example_direct_hydrated\<rparr>"

definition example_room_hydrated :: hydrated where
  "example_room_hydrated =
     \<lparr>kind = MediaKind, sender = alice, recipient = None, room = Some (Room ''room1''),
      msg_text = [], filename = Some ''photo.jpg'', extension = ''jpg'',
      mimeType = Some ''image/jpeg'', mentions = [bob, bob, alice],
      raw = example_payload_room\<rparr>"

definition example_room_message :: entity where
  "example_room_message = \<lparr>msg_id = ''m2'', hydrationState = READY example_room_hydrated\<rparr>"

section \<open>Properties of the class members\<close>

lemmas example_defs =
  alice_def bob_def example_directory_def example_payload_direct_def example_payload_room_def
  example_transport_def example_session_def example_direct_hydrated_def
  example_direct_message_def example_room_hydrated_def example_room_message_def

subsection \<open>\<open>content()\<close>\<close>

text \<open>
  C1. For every receiver (whatever its variant) and every argument, absent or any string,
  \<open>content()\<close> fails: its result is the thrown \<open>Error\<close> with the deprecation message that
  points to \<open>text()\<close>. It never returns a value, and in particular never the value of the
  receiver's \<open>text()\<close> accessor.
\<close>

theorem content_always_fails:
  "content this arg =
     Inl (Error ''Deprecated. Use `text()` instead of `content()`. See https://github.com/Chatie/wechaty/issues/1163'')
   \<and> (\<nexists>v. content this arg = Inr v)
   \<and> content this arg \<noteq> Inr (Some (text_of A this))"
  by (simp add: content_def)

subsection \<open>\<open>toString()\<close>\<close>

text \<open>
  C2. For every entity, \<open>toString()\<close> is the label \<open>Message#<type name><<value>>\<close>, where
  the value is \<open>text()\<close> when the type is \<open>TEXT\<close> and \<open>filename()\<close> (as the template
  literal prints it) for every other type; so the label includes that value as a
  contiguous part.
\<close>

theorem toString_label:
  "toString W A this =
     ''Message#'' @ template_optional (name_of W (type_of A this)) @ ''<''
       @ (if type_of A this = TEXT W then text_of A this
          else template_nullable (filename_of A this)) @ ''>''
   \<and> sublist (if type_of A this = TEXT W then text_of A this
               else template_nullable (filename_of A this))
              (toString W A this)"
proof -
  let ?v = "if type_of A this = TEXT W then text_of A this
            else template_nullable (filename_of A this)"
  let ?pre = "''Message#'' @ template_optional (name_of W (type_of A this)) @ ''<''"
  have eq: "toString W A this = ?pre @ ?v @ ''>''"
    by (simp add: toString_def)
  then have "sublist ?v (toString W A this)"
    unfolding sublist_def by blast
  with eq show ?thesis by simp
qed

theorem toString_label_witness:
  "toString example_WebMsgType example_accessors (ExampleMessage 1 ''hi'' None) = ''Message#TEXT<hi>''
   \<and> sublist ''hi'' (toString example_WebMsgType example_accessors (ExampleMessage 1 ''hi'' None))
   \<and> toString example_WebMsgType example_accessors (ExampleMessage 3 [] (Some ''photo.jpg''))
       = ''Message#IMAGE<photo.jpg>''
   \<and> sublist ''photo.jpg''
       (toString example_WebMsgType example_accessors (ExampleMessage 3 [] (Some ''photo.jpg'')))"
proof -
  let ?hi = "ExampleMessage 1 ''hi'' None"
  let ?photo = "ExampleMessage 3 [] (Some ''photo.jpg'')"
  have ev: "type_of example_accessors ?hi = 1" "TEXT example_WebMsgType = 1"
    "text_of example_accessors ?hi = ''hi''"
    "template_optional (name_of example_WebMsgType 1) = ''TEXT''"
    "type_of example_accessors ?photo = 3"
    "template_nullable (filename_of example_accessors ?photo) = ''photo.jpg''"
    "template_optional (name_of example_WebMsgType 3) = ''IMAGE''"
    by (simp_all add: example_accessors_def example_WebMsgType_def template_optional_def
          template_nullable_def)
  show ?thesis
    using toString_label [of example_WebMsgType example_accessors ?hi]
      toString_label [of example_WebMsgType example_accessors ?photo]
    by (auto simp add: ev)
qed

subsection \<open>\<open>findAll\<close> and \<open>find\<close>\<close>

lemma findAll_eq:
  "findAll ctor query h =
     ([length h, Suc (length h)],
      h @ [ctor [Obj [(''MsgId'', ''id1'')]], ctor [Obj [(''MsdId'', ''id2'')]]])"
  by (simp add: findAll_def new_def)

text \<open>
  C8. For every query, \<open>find(query)\<close> returns exactly the element at index 0 of the list
  that \<open>findAll(query)\<close> returns (and leaves the store as \<open>findAll\<close> leaves it); that
  list has a first element, and it is the result.
\<close>

theorem find_first_of_findAll:
  "find_message ctor query h = (index0 (fst (findAll ctor query h)), snd (findAll ctor query h))
   \<and> (\<exists>r rs. fst (findAll ctor query h) = r # rs \<and> fst (find_message ctor query h) = Some r)"
  by (simp add: find_message_def findAll_eq index0_def)

text \<open>
  C9. For every query, \<open>findAll(query)\<close> does not depend on the query and returns exactly
  two references, to two objects it has just constructed (neither reference names an
  object of the store before the call, and the two differ): the first built from
  \<open>{ MsgId: 'id1' }\<close>, the second from \<open>{ MsdId: 'id2' }\<close>, whose key is \<open>MsdId\<close>.
\<close>

theorem findAll_two_fixed:
  "findAll ctor query h =
     ([length h, Suc (length h)],
      h @ [ctor [Obj [(''MsgId'', ''id1'')]], ctor [Obj [(''MsdId'', ''id2'')]]])
   \<and> findAll ctor query h = findAll ctor query' h
   \<and> length (fst (findAll ctor query h)) = 2
   \<and> map (deref h) (fst (findAll ctor query h)) = [None, None]
   \<and> distinct (fst (findAll ctor query h))
   \<and> map (deref (snd (findAll ctor query h))) (fst (findAll ctor query h))
       = [Some (ctor [Obj [(''MsgId'', ''id1'')]]), Some (ctor [Obj [(''MsdId'', ''id2'')]])]"
  by (simp add: findAll_eq deref_def nth_append)

text \<open>
  C10. For every query, \<open>find(query)\<close> never returns the absent value that its declared
  type allows: the list of \<open>findAll(query)\<close> is never empty.
\<close>

theorem find_never_null:
  "fst (find_message ctor query h) \<noteq> None \<and> fst (findAll ctor query h) \<noteq> []"
  by (simp add: find_message_def findAll_eq index0_def)

section \<open>Properties of hydration, mention resolution and dispatch\<close>

subsection \<open>The examples, evaluated\<close>

lemma example_ready_direct:
  "ready example_transport example_directory (create_entity (Inl ''m1'')) example_session
     = Some (Inr example_direct_message, example_session\<lparr>fetches := 1\<rparr>)"
  by (simp add: ready_def hydrate_def mentionResolver_def create_entity_def example_defs)

lemma example_ready_room:
  "ready example_transport example_directory (create_entity (Inl ''m2'')) example_session
     = Some (Inr example_room_message, example_session\<lparr>fetches := 1\<rparr>)"
  by (simp add: ready_def hydrate_def mentionResolver_def create_entity_def example_defs)

lemma example_created_RAW:
  "hydrationState (create_entity (Inl i)) = RAW"
  by (simp add: create_entity_def)

lemma example_acknowledges:
  "acknowledges example_transport rq"
  by (simp add: example_transport_def)

subsection \<open>\<open>ready()\<close>\<close>

lemma ready_READY:
  assumes "ready ts ds m s = Some (Inr m1, s1)"
  shows "\<exists>d. hydrationState m1 = READY d"
  using assms
  by (auto simp add: ready_def Let_def
      split: hydrationState.splits option.splits if_splits sum.splits prod.splits)

lemma ready_fetches:
  assumes "ready ts ds m s = Some (r, s1)"
  shows "fetches s1 \<le> Suc (fetches s)"
  using assms
  by (auto simp add: ready_def Let_def
      split: hydrationState.splits option.splits if_splits sum.splits prod.splits)

text \<open>
  C3. For every entity, if a first call of \<open>ready()\<close> has completed and returned the
  hydrated entity, a second call after it is a no-op: it returns the same entity, with
  every field as the first call left it, and the session as it was, so that both calls
  together have made at most one fetch.
\<close>

theorem ready_second_call_noop:
  assumes "ready ts ds m s = Some (Inr m1, s1)"
  shows "ready ts ds m1 s1 = Some (Inr m1, s1) \<and> fetches s1 \<le> Suc (fetches s)"
proof -
  from assms obtain d where "hydrationState m1 = READY d"
    using ready_READY by blast
  then have "ready ts ds m1 s1 = Some (Inr m1, s1)"
    by (simp add: ready_def)
  with ready_fetches [OF assms] show ?thesis by simp
qed

theorem ready_second_call_noop_witness:
  "ready example_transport example_directory (create_entity (Inl ''m2'')) example_session
     = Some (Inr example_room_message, example_session\<lparr>fetches := 1\<rparr>)
   \<and> ready example_transport example_directory example_room_message
        (example_session\<lparr>fetches := 1\<rparr>)
     = Some (Inr example_room_message, example_session\<lparr>fetches := 1\<rparr>)
   \<and> fetches (example_session\<lparr>fetches := 1\<rparr>) \<le> Suc (fetches example_session)"
  using ready_second_call_noop [OF example_ready_room] example_ready_room by simp

subsection \<open>\<open>say()\<close>\<close>

text \<open>
  C5. For every hydrated entity and every payload (text, or a hydrated message): when
  \<open>room()\<close> is non-null, \<open>say\<close> hands the Transport Session one request that targets that
  room and carries the mentions given; when \<open>room()\<close> is null, it hands over one request
  that targets \<open>from()\<close> directly and carries no mentions, and the call behaves exactly as
  the call without mentions does, so giving them is not an error.
\<close>

theorem say_addressing:
  "(get_room m = Inr (Some r) \<and> sayable_body payload = Inr b \<longrightarrow>
      say ts m payload ms s = send ts \<lparr>target = ToRoom r, body = b, mention = ms\<rparr> s
      \<and> sends (snd (say ts m payload ms s))
          = sends s @ [\<lparr>target = ToRoom r, body = b, mention = ms\<rparr>])
   \<and> (get_room m = Inr None \<and> get_from m = Inr c \<and> sayable_body payload = Inr b \<longrightarrow>
      say ts m payload ms s = send ts \<lparr>target = ToContact c, body = b, mention = []\<rparr> s
      \<and> sends (snd (say ts m payload ms s))
          = sends s @ [\<lparr>target = ToContact c, body = b, mention = []\<rparr>]
      \<and> say ts m payload ms s = say ts m payload [] s)"
  by (simp add: say_def send_def)

theorem say_addressing_witness:
  "get_room example_room_message = Inr (Some (Room ''room1''))
   \<and> get_room example_direct_message = Inr None
   \<and> get_from example_direct_message = Inr alice
   \<and> sayable_body (SayText ''pong'') = Inr (Text ''pong'')
   \<and> sends (snd (say example_transport example_room_message (SayText ''pong'') [bob] example_session))
        = [\<lparr>target = ToRoom (Room ''room1''), body = Text ''pong'', mention = [bob]\<rparr>]
   \<and> sends (snd (say example_transport example_direct_message (SayText ''pong'') [bob] example_session))
        = [\<lparr>target = ToContact alice, body = Text ''pong'', mention = []\<rparr>]
   \<and> fst (say example_transport example_direct_message (SayText ''pong'') [bob] example_session)
        = Inr ()"
proof -
  have ev: "get_room example_room_message = Inr (Some (Room ''room1''))"
    "get_room example_direct_message = Inr None"
    "get_from example_direct_message = Inr alice"
    "sayable_body (SayText ''pong'') = Inr (Text ''pong'')"
    "sends example_session = []"
    by (simp_all add: get_room_def get_from_def getter_def sayable_body_def
          example_room_message_def example_room_hydrated_def example_direct_message_def
          example_direct_hydrated_def example_session_def)
  show ?thesis
    using say_addressing [of example_room_message "Room ''room1''" "SayText ''pong''" "Text ''pong''"
              example_transport "[bob]" example_session]
          say_addressing [of example_direct_message _ "SayText ''pong''" "Text ''pong''"
              example_transport "[bob]" example_session alice]
    by (simp add: ev send_def example_acknowledges)
qed

subsection \<open>Mention resolution\<close>

lemma resolveIds_map_filter:
  "fst (resolveIds ds ids) = List.map_filter (findContact ds) ids"
  by (induction ids) (auto split: prod.splits option.splits)

lemma map_filter_all_resolved:
  "\<forall>i \<in> set ids. f i \<noteq> None \<Longrightarrow> map Some (List.map_filter f ids) = map f ids"
  by (induction ids) (auto split: option.splits)

lemma ready_mentioned:
  assumes "ready ts ds m s = Some (Inr m1, s1)" and "hydrationState m = RAW"
    and "fetchPayload ts (msg_id m) = Some p"
  shows "mentioned m1 = Inr (fst (mentionResolver ds p))"
  using assms
  by (auto simp add: ready_def hydrate_def Let_def mentioned_def getter_def
      split: option.splits if_splits sum.splits prod.splits)

text \<open>
  C6. For every list of raw mention identifiers, the resolved mentions are the contacts
  of the identifiers that resolve, in the order of the list and once for every
  occurrence (nothing is merged); when every identifier resolves, the mentions are as
  many as the identifiers and the k-th mention is the contact of the k-th identifier.
  This sequence is what \<open>mentioned()\<close> returns on the entity that \<open>ready()\<close> has hydrated
  from a payload carrying that list.
\<close>

theorem mention_resolution_order_multiplicity:
  "fst (resolveIds ds ids) = List.map_filter (findContact ds) ids
   \<and> (p_mentions p = ExplicitIds ids \<longrightarrow>
        fst (mentionResolver ds p) = List.map_filter (findContact ds) ids)
   \<and> ((\<forall>i \<in> set ids. findContact ds i \<noteq> None) \<longrightarrow>
        map Some (fst (resolveIds ds ids)) = map (findContact ds) ids
        \<and> length (fst (resolveIds ds ids)) = length ids)
   \<and> (ready ts ds m s = Some (Inr m1, s1) \<and> hydrationState m = RAW
        \<and> fetchPayload ts (msg_id m) = Some p \<and> p_mentions p = ExplicitIds ids \<longrightarrow>
        mentioned m1 = Inr (List.map_filter (findContact ds) ids)
        \<and> ((\<forall>i \<in> set ids. findContact ds i \<noteq> None) \<longrightarrow>
             (\<exists>cs. mentioned m1 = Inr cs \<and> map Some cs = map (findContact ds) ids
                    \<and> length cs = length ids)))"
proof -
  have 1: "fst (resolveIds ds ids) = List.map_filter (findContact ds) ids"
    by (rule resolveIds_map_filter)
  have 2: "fst (mentionResolver ds p) = List.map_filter (findContact ds) ids"
    if "p_mentions p = ExplicitIds ids"
    using that by (simp add: mentionResolver_def 1)
  have 3: "map Some (fst (resolveIds ds ids)) = map (findContact ds) ids
        \<and> length (fst (resolveIds ds ids)) = length ids"
    if all: "\<forall>i \<in> set ids. findContact ds i \<noteq> None"
  proof -
    have m: "map Some (fst (resolveIds ds ids)) = map (findContact ds) ids"
      unfolding 1 using all by (rule map_filter_all_resolved)
    from arg_cong [OF m, of length]
    have "length (fst (resolveIds ds ids)) = length ids" by simp
    with m show ?thesis by simp
  qed
  have 4: "mentioned m1 = Inr (List.map_filter (findContact ds) ids)
        \<and> ((\<forall>i \<in> set ids. findContact ds i \<noteq> None) \<longrightarrow>
             (\<exists>cs. mentioned m1 = Inr cs \<and> map Some cs = map (findContact ds) ids
                    \<and> length cs = length ids))"
    if r: "ready ts ds m s = Some (Inr m1, s1)" and raw: "hydrationState m = RAW"
      and f: "fetchPayload ts (msg_id m) = Some p" and e: "p_mentions p = ExplicitIds ids"
  proof -
    have a: "mentioned m1 = Inr (List.map_filter (findContact ds) ids)"
      using ready_mentioned [OF r raw f] 2 [OF e] by simp
    have "\<exists>cs. mentioned m1 = Inr cs \<and> map Some cs = map (findContact ds) ids
                    \<and> length cs = length ids"
      if all: "\<forall>i \<in> set ids. findContact ds i \<noteq> None"
      using a 3 [OF all] unfolding 1 by simp
    with a show ?thesis by blast
  qed
  from 1 2 3 4 show ?thesis by blast
qed

theorem mention_resolution_order_multiplicity_witness:
  "ready example_transport example_directory (create_entity (Inl ''m2'')) example_session
     = Some (Inr example_room_message, example_session\<lparr>fetches := 1\<rparr>)
   \<and> hydrationState (create_entity (Inl ''m2'')) = RAW
   \<and> fetchPayload example_transport (msg_id (create_entity (Inl ''m2''))) = Some example_payload_room
   \<and> p_mentions example_payload_room = ExplicitIds [''bob'', ''bob'', ''alice'']
   \<and> findContact example_directory ''bob'' = Some bob
   \<and> findContact example_directory ''alice'' = Some alice
   \<and> fst (resolveIds example_directory [''bob'', ''bob'', ''alice'']) = [bob, bob, alice]
   \<and> fst (mentionResolver example_directory example_payload_room) = [bob, bob, alice]
   \<and> length (fst (resolveIds example_directory [''bob'', ''bob'', ''alice''])) = 3
   \<and> mentioned example_room_message = Inr [bob, bob, alice]"
proof -
  have ev:
    "fetchPayload example_transport (msg_id (create_entity (Inl ''m2''))) = Some example_payload_room"
    "p_mentions example_payload_room = ExplicitIds [''bob'', ''bob'', ''alice'']"
    "findContact example_directory ''bob'' = Some bob"
    "findContact example_directory ''alice'' = Some alice"
    by (simp_all add: create_entity_def example_transport_def example_payload_room_def
          example_directory_def)
  show ?thesis
    using mention_resolution_order_multiplicity
          [of example_directory "[''bob'', ''bob'', ''alice'']" example_payload_room
              example_transport "create_entity (Inl ''m2'')" example_session
              example_room_message "example_session\<lparr>fetches := 1\<rparr>"]
      example_ready_room example_created_RAW [of "''m2''"]
    by (simp add: ev)
qed

subsection \<open>\<open>forward()\<close>\<close>

text \<open>
  C7. For every entity and every target, the entity after \<open>forward(target)\<close> is the
  entity before it, so its id, \<open>filename()\<close> and \<open>mimeType()\<close> are the same. On a hydrated
  entity the call hands the Transport Session one request, to that target, whose body is
  the entity's own payload, unchanged; on an entity that is not yet hydrated it fails
  with \<open>NotHydrated\<close> and sends nothing.
\<close>

theorem forward_frame:
  "fst (snd (forward ts m to s)) = m
   \<and> msg_id (fst (snd (forward ts m to s))) = msg_id m
   \<and> get_filename (fst (snd (forward ts m to s))) = get_filename m
   \<and> get_mimeType (fst (snd (forward ts m to s))) = get_mimeType m
   \<and> (hydrationState m = READY d \<longrightarrow>
        forward ts m to s
          = (fst (send ts \<lparr>target = to, body = Raw (raw d), mention = []\<rparr> s), m,
             s\<lparr>sends := sends s @ [\<lparr>target = to, body = Raw (raw d), mention = []\<rparr>]\<rparr>))
   \<and> (hydrationState m \<in> {RAW, HYDRATING} \<longrightarrow> forward ts m to s = (Inl NotHydrated, m, s))"
  by (cases "hydrationState m") (auto simp add: forward_def getter_def send_def)

theorem forward_frame_witness:
  "hydrationState (create_entity (Inl ''m2'')) \<in> {RAW, HYDRATING}
   \<and> forward example_transport (create_entity (Inl ''m2'')) (ToRoom (Room ''room1'')) example_session
       = (Inl NotHydrated, create_entity (Inl ''m2''), example_session)
   \<and> hydrationState example_room_message = READY example_room_hydrated
   \<and> forward example_transport example_room_message (ToRoom (Room ''room1'')) example_session
       = (Inr (), example_room_message,
          example_session
            \<lparr>sends := [\<lparr>target = ToRoom (Room ''room1''), body = Raw example_payload_room,
                        mention = []\<rparr>]\<rparr>)
   \<and> get_filename example_room_message = Inr (Some ''photo.jpg'')"
proof -
  have rdy: "hydrationState example_room_message = READY example_room_hydrated"
    by (simp add: example_room_message_def)
  have ev: "raw example_room_hydrated = example_payload_room"
    "get_filename example_room_message = Inr (Some ''photo.jpg'')"
    "sends example_session = []"
    by (simp_all add: get_filename_def getter_def example_room_message_def
          example_room_hydrated_def example_session_def)
  show ?thesis
    using forward_frame [of example_transport "create_entity (Inl ''m2'')" "ToRoom (Room ''room1'')"
              example_session]
          forward_frame [of example_transport example_room_message "ToRoom (Room ''room1'')"
              example_session example_room_hydrated]
    by (simp add: example_created_RAW rdy ev send_def example_acknowledges)
qed

end
